theory Spec2Isabelle
  imports Main "HOL-Library.AList"
begin

section \<open>The stack declaration of \<open>cdkapp_stack.py\<close>\<close>

text \<open>
  \<open>CdkappStack.__init__\<close> is straight-line code: a sequence of calls into a provisioning
  SDK, each of which adds a construct to the stack under construction or changes one that
  is already there. The model threads the stack (the resource graph) through the calls in
  the order of the source. A Python variable that holds a construct is modelled by the
  construct's id, and the constructs live in association lists keyed by id, in
  declaration order: a security group that is changed after other constructs refer to it
  (\<open>lb_sg\<close>, by the listener) is changed for all of them.

  The SDK itself is not part of the repository. Each SDK call is modelled by what the
  declaration hands to it; the places where the SDK's own behaviour decides what the
  graph holds, or whether there is one, are written out and marked below
  (\<open>Stack_init\<close>, \<open>new_Vpc\<close>, \<open>add_ingress_rule\<close>, \<open>add_listener\<close>,
  \<open>add_targets\<close>).
\<close>

subsection \<open>Values of the SDK\<close>

datatype SubnetType = PUBLIC | PRIVATE_WITH_EGRESS | PRIVATE_ISOLATED

record SubnetConfiguration =
  subnet_type :: SubnetType
  subnet_name :: string
  cidr_mask :: nat

text \<open>The source of an inbound grant (\<open>ec2.Peer.any_ipv4()\<close>, or a security group).\<close>

datatype Peer = any_ipv4 | security_group_peer string

text \<open>The connection of a grant: \<open>ec2.Port.tcp(n)\<close>; \<open>all_traffic\<close> is what an
  allow-all-outbound group carries.\<close>

datatype Port = tcp nat | all_traffic

datatype Protocol = TCP | UDP

datatype AuroraMysqlEngineVersion = VER_3_04_0

datatype DatabaseClusterEngine = aurora_mysql AuroraMysqlEngineVersion

text \<open>\<open>SecretValue(...)\<close> wraps a literal; \<open>secrets_manager\<close> would name an entry of
  a secret store instead.\<close>

datatype SecretValue = SecretValue string | secrets_manager string

datatype Credentials =
    from_password string SecretValue
  | from_generated_secret string
  | from_secret string

datatype AmazonLinuxGeneration = AMAZON_LINUX | AMAZON_LINUX_2 | AMAZON_LINUX_2023
datatype AmazonLinuxEdition = STANDARD | MINIMAL
datatype AmazonLinuxVirt = HVM | PV
datatype AmazonLinuxStorage = EBS | GENERAL_PURPOSE

record MachineImage =
  generation :: AmazonLinuxGeneration
  edition :: AmazonLinuxEdition
  virtualization :: AmazonLinuxVirt
  storage :: AmazonLinuxStorage

datatype UserData = custom string

subsection \<open>Constructs\<close>

record Vpc =
  ip_addresses :: string
  nat_gateways :: nat
  subnet_configuration :: "SubnetConfiguration list"
  availability_zones :: "string list"

record SecurityGroup =
  sg_vpc :: string
  allow_all_outbound :: bool
  ingress_rules :: "(Peer \<times> Port) list"

record DatabaseCluster =
  engine :: DatabaseClusterEngine
  credentials :: Credentials
  default_database_name :: "string option"
  db_vpc :: string
  db_security_groups :: "string list"
  db_vpc_subnets :: SubnetType
  db_instances :: nat

record Role =
  role_name :: string
  imported :: bool

record Instance =
  instance_type :: string
  machine_image :: MachineImage
  instance_vpc :: string
  instance_vpc_subnets :: SubnetType
  availability_zone :: string
  security_group :: string
  user_data :: UserData
  role :: string

record ApplicationLoadBalancer =
  lb_vpc :: string
  internet_facing :: bool
  lb_security_group :: string
  lb_vpc_subnets :: "SubnetType option"

record ApplicationListener =
  load_balancer :: string
  listener_port :: nat
  listener_open :: bool

record ApplicationTargetGroup =
  tg_listener :: string
  tg_port :: nat
  targets :: "string list"

text \<open>The stack under construction. \<open>dependencies\<close> holds a pair
  \<open>(dependent, prerequisite)\<close> for every \<open>dependent.node.add_dependency(prerequisite)\<close>.\<close>

record Stack =
  stack_path :: "string list"
  stack_availability_zones :: "string list"
  vpcs :: "(string \<times> Vpc) list"
  security_groups :: "(string \<times> SecurityGroup) list"
  database_clusters :: "(string \<times> DatabaseCluster) list"
  roles :: "(string \<times> Role) list"
  instances :: "(string \<times> Instance) list"
  load_balancers :: "(string \<times> ApplicationLoadBalancer) list"
  listeners :: "(string \<times> ApplicationListener) list"
  target_groups :: "(string \<times> ApplicationTargetGroup) list"
  dependencies :: "(string \<times> string) list"

subsection \<open>The inputs of the declaration\<close>

text \<open>
  \<open>scope\<close> is the construct the stack is declared in. Of it the declaration uses its
  place in the construct tree and, through \<open>vpc.availability_zones\<close>, the zones its
  environment offers; both are taken as given. The source hands \<open>**kwargs\<close> on to the
  SDK; the model is of a declaration without keyword arguments, directly in its scope, so
  that the stack's name is its id.
\<close>

record Scope =
  scope_path :: "string list"
  scope_availability_zones :: "string list"

text \<open>
  What the declaration is evaluated in, and changes: the file system (the bytes of each
  readable file, and the paths that have been opened so far), the text decoding of the
  locale (\<open>None\<close> for bytes that are not valid in its encoding; decoded text is written in
  UTF-8), and the construct tree, as the paths of the stacks declared so far.
\<close>

record World =
  files :: "string \<rightharpoonup> string"
  decode :: "string \<Rightarrow> string option"
  opened :: "string list"
  constructs :: "string list list"

text \<open>\<open>RuntimeError\<close> is what an error of the SDK surfaces as; it carries the id of the
  construct that was being declared.\<close>

datatype error = OSError string | UnicodeDecodeError | IndexError | RuntimeError string

text \<open>Reading in text mode translates line ends: CR LF and a lone CR become LF.\<close>

fun universal_newlines :: "string \<Rightarrow> string" where
  "universal_newlines [] = []"
| "universal_newlines [c] = (if c = CHR 0x0D then [CHR 0x0A] else [c])"
| "universal_newlines (c # d # cs) =
     (if c = CHR 0x0D \<and> d = CHR 0x0A then CHR 0x0A # universal_newlines cs
      else if c = CHR 0x0D then CHR 0x0A # universal_newlines (d # cs)
      else c # universal_newlines (d # cs))"

text \<open>\<open>with open(path, "r") as f: f.read()\<close>: \<open>open\<close> raises when the file is missing
  or unreadable; \<open>read\<close> decodes the bytes of the file, raising when they do not decode,
  and returns the decoded text with its line ends translated.\<close>

definition open_read :: "string \<Rightarrow> World \<Rightarrow> error + (string \<times> World)" where
  "open_read path w =
     (case files w path of
        None \<Rightarrow> Inl (OSError path)
      | Some content \<Rightarrow>
          (case decode w content of
             None \<Rightarrow> Inl UnicodeDecodeError
           | Some decoded \<Rightarrow>
               Inr (universal_newlines decoded, w\<lparr>opened := opened w @ [path]\<rparr>)))"

text \<open>\<open>xs[i]\<close> for a literal index \<open>i \<ge> 0\<close>: Python raises IndexError out of range.\<close>

definition index :: "'a list \<Rightarrow> nat \<Rightarrow> error + 'a" where
  "index xs i = (if i < length xs then Inr (xs ! i) else Inl IndexError)"

subsection \<open>The SDK calls of the declaration\<close>

text \<open>
  \<open>super().__init__(scope, construct_id, **kwargs)\<close> declares the stack in its scope. The
  SDK stores an id with every \<open>/\<close> replaced by \<open>--\<close>. It refuses an empty id, an id that
  is already taken in the scope, and a stack whose name is not a letter followed by
  letters, digits and hyphens.
\<close>

definition sanitize_id :: "string \<Rightarrow> string" where
  "sanitize_id cid = concat (map (\<lambda>c. if c = CHR ''/'' then ''--'' else [c]) cid)"

definition letters :: string where
  "letters = ''ABCDEFGHIJKLMNOPQRSTUVWXYZabcdefghijklmnopqrstuvwxyz''"

definition digits :: string where
  "digits = ''0123456789''"

definition valid_stack_name :: "string \<Rightarrow> bool" where
  "valid_stack_name n =
     (case n of
        [] \<Rightarrow> False
      | c # cs \<Rightarrow> c \<in> set letters \<and> list_all (\<lambda>d. d \<in> set (letters @ digits @ ''-'')) cs)"

definition admits :: "Scope \<Rightarrow> string \<Rightarrow> World \<Rightarrow> bool" where
  "admits scope construct_id w =
     (construct_id \<noteq> [] \<and>
      scope_path scope @ [sanitize_id construct_id] \<notin> set (constructs w) \<and>
      valid_stack_name (sanitize_id construct_id))"

definition Stack_init :: "Scope \<Rightarrow> string \<Rightarrow> World \<Rightarrow> error + (Stack \<times> World)" where
  "Stack_init scope construct_id w =
     (if admits scope construct_id w then
        Inr (\<lparr>stack_path = scope_path scope @ [sanitize_id construct_id],
              stack_availability_zones = scope_availability_zones scope,
              vpcs = [], security_groups = [], database_clusters = [], roles = [],
              instances = [], load_balancers = [], listeners = [], target_groups = [],
              dependencies = []\<rparr>,
             w\<lparr>constructs := constructs w @ [scope_path scope @ [sanitize_id construct_id]]\<rparr>)
      else Inl (RuntimeError construct_id))"

text \<open>\<open>ec2.Vpc(...)\<close> lays its subnets out over the zones of the stack, and fails when
  there is no zone.\<close>

definition new_Vpc ::
  "string \<Rightarrow> string \<Rightarrow> nat \<Rightarrow> SubnetConfiguration list \<Rightarrow> Stack \<Rightarrow> error + Stack" where
  "new_Vpc cid cidr nat_gw cfg g =
     (if stack_availability_zones g = [] then Inl (RuntimeError cid)
      else Inr (g\<lparr>vpcs := vpcs g @
        [(cid, \<lparr>ip_addresses = cidr, nat_gateways = nat_gw, subnet_configuration = cfg,
                availability_zones = stack_availability_zones g\<rparr>)]\<rparr>))"

definition new_SecurityGroup :: "string \<Rightarrow> string \<Rightarrow> bool \<Rightarrow> Stack \<Rightarrow> Stack" where
  "new_SecurityGroup cid vpc outbound g =
     g\<lparr>security_groups := security_groups g @
        [(cid, \<lparr>sg_vpc = vpc, allow_all_outbound = outbound, ingress_rules = []\<rparr>)]\<rparr>"

text \<open>
  \<open>sg.add_ingress_rule(peer, connection)\<close> gives the group one more inbound grant. What
  the SDK does with a grant the group already holds is not decided by the repository:
  \<open>merge\<close> says whether the SDK keeps one copy of equal grants (\<open>True\<close>) or lists the
  grant again (\<open>False\<close>).
\<close>

definition add_ingress_rule :: "bool \<Rightarrow> string \<Rightarrow> Peer \<Rightarrow> Port \<Rightarrow> Stack \<Rightarrow> Stack" where
  "add_ingress_rule merge sg peer connection g =
     g\<lparr>security_groups :=
        AList.map_entry sg
          (\<lambda>s. if merge \<and> (peer, connection) \<in> set (ingress_rules s) then s
               else s\<lparr>ingress_rules := ingress_rules s @ [(peer, connection)]\<rparr>)
          (security_groups g)\<rparr>"

definition new_DatabaseCluster :: "string \<Rightarrow> DatabaseCluster \<Rightarrow> Stack \<Rightarrow> Stack" where
  "new_DatabaseCluster cid props g =
     g\<lparr>database_clusters := database_clusters g @ [(cid, props)]\<rparr>"

definition latest_amazon_linux ::
  "AmazonLinuxGeneration \<Rightarrow> AmazonLinuxEdition \<Rightarrow> AmazonLinuxVirt \<Rightarrow> AmazonLinuxStorage
     \<Rightarrow> MachineImage" where
  "latest_amazon_linux g e v s =
     \<lparr>generation = g, edition = e, virtualization = v, storage = s\<rparr>"

text \<open>\<open>iam.Role.from_role_name\<close> refers to a role that exists outside the stack.\<close>

definition from_role_name :: "string \<Rightarrow> string \<Rightarrow> Stack \<Rightarrow> Stack" where
  "from_role_name cid rname g =
     g\<lparr>roles := roles g @ [(cid, \<lparr>role_name = rname, imported = True\<rparr>)]\<rparr>"

definition new_Instance :: "string \<Rightarrow> Instance \<Rightarrow> Stack \<Rightarrow> Stack" where
  "new_Instance cid props g = g\<lparr>instances := instances g @ [(cid, props)]\<rparr>"

definition new_ApplicationLoadBalancer ::
  "string \<Rightarrow> string \<Rightarrow> bool \<Rightarrow> string \<Rightarrow> Stack \<Rightarrow> Stack" where
  "new_ApplicationLoadBalancer cid vpc facing sg g =
     g\<lparr>load_balancers := load_balancers g @
        [(cid, \<lparr>lb_vpc = vpc, internet_facing = facing, lb_security_group = sg,
                lb_vpc_subnets = None\<rparr>)]\<rparr>"

text \<open>
  \<open>lb.add_listener(id, port, open)\<close> declares a listener of the load balancer. With
  \<open>open=True\<close> the SDK grants any IPv4 address access to the listener's port, on the
  load balancer's security group.
\<close>

definition add_listener ::
  "bool \<Rightarrow> string \<Rightarrow> string \<Rightarrow> nat \<Rightarrow> bool \<Rightarrow> Stack \<Rightarrow> Stack" where
  "add_listener merge lb cid port opn g =
     (let g' = g\<lparr>listeners := listeners g @
                  [(cid, \<lparr>load_balancer = lb, listener_port = port, listener_open = opn\<rparr>)]\<rparr>
      in case map_of (load_balancers g) lb of
           None \<Rightarrow> g'
         | Some b \<Rightarrow>
             if opn then add_ingress_rule merge (lb_security_group b) any_ipv4 (tcp port) g'
             else g')"

text \<open>
  \<open>listener.add_targets(id, port, targets)\<close> declares a target group of the listener.
  \<open>targets\<close> is optional and defaults to no target. For every target the SDK lets the
  load balancer's security group reach the target's security group on the target port.
\<close>

definition allow_from_load_balancer :: "bool \<Rightarrow> string \<Rightarrow> nat \<Rightarrow> string \<Rightarrow> Stack \<Rightarrow> Stack" where
  "allow_from_load_balancer merge listener port target g =
     (case (map_of (listeners g) listener, map_of (instances g) target) of
        (Some l, Some i) \<Rightarrow>
          (case map_of (load_balancers g) (load_balancer l) of
             Some b \<Rightarrow>
               add_ingress_rule merge (security_group i)
                 (security_group_peer (lb_security_group b)) (tcp port) g
           | None \<Rightarrow> g)
      | _ \<Rightarrow> g)"

definition add_targets ::
  "bool \<Rightarrow> string \<Rightarrow> string \<Rightarrow> nat \<Rightarrow> string list \<Rightarrow> Stack \<Rightarrow> Stack" where
  "add_targets merge listener cid port ts g =
     fold (allow_from_load_balancer merge listener port) ts
       (g\<lparr>target_groups := target_groups g @
            [(cid, \<lparr>tg_listener = listener, tg_port = port, targets = ts\<rparr>)]\<rparr>)"

text \<open>\<open>dependent.node.add_dependency(prerequisite)\<close>.\<close>

definition add_dependency :: "string \<Rightarrow> string \<Rightarrow> Stack \<Rightarrow> Stack" where
  "add_dependency dependent prerequisite g =
     g\<lparr>dependencies := dependencies g @ [(dependent, prerequisite)]\<rparr>"

subsection \<open>The declaration\<close>

text \<open>\<open>vpc.availability_zones\<close>, for the VPC with the given id.\<close>

definition availability_zones_of :: "Stack \<Rightarrow> string \<Rightarrow> string list" where
  "availability_zones_of g vpc =
     (case map_of (vpcs g) vpc of None \<Rightarrow> [] | Some v \<Rightarrow> availability_zones v)"

text \<open>
  \<open>CdkappStack.__init__(self, scope, construct_id)\<close>, call by call. The result is the
  error the evaluation raises, or the stack it has declared together with the file system
  and the construct tree as it leaves them. After an error nothing of the evaluation is
  followed further. The arguments of \<open>ec2.Instance(...)\<close> are evaluated in the order they
  are written: the zone is looked up before the role is imported.
\<close>

definition CdkappStack :: "bool \<Rightarrow> Scope \<Rightarrow> string \<Rightarrow> World \<Rightarrow> error + (Stack \<times> World)" where
  "CdkappStack merge scope construct_id w =
    (case Stack_init scope construct_id w of
       Inl e \<Rightarrow> Inl e
     | Inr (g, w) \<Rightarrow>
    (case new_Vpc ''MyVPC'' ''10.10.0.0/16'' 1
               [\<lparr>subnet_type = PUBLIC, subnet_name = ''Public'', cidr_mask = 24\<rparr>,
                \<lparr>subnet_type = PRIVATE_WITH_EGRESS, subnet_name = ''PrivateWithEgress'',
                 cidr_mask = 24\<rparr>,
                \<lparr>subnet_type = PRIVATE_ISOLATED, subnet_name = ''RDS'', cidr_mask = 24\<rparr>] g of
       Inl e \<Rightarrow> Inl e
     | Inr g \<Rightarrow>
    (let g = new_SecurityGroup ''lb_sg'' ''MyVPC'' True g;
         g = new_SecurityGroup ''rds_sg'' ''MyVPC'' True g;
         g = new_SecurityGroup ''ec2_sg'' ''MyVPC'' True g;
         g = add_ingress_rule merge ''lb_sg'' any_ipv4 (tcp 80) g;
         g = add_ingress_rule merge ''ec2_sg'' (security_group_peer ''lb_sg'') (tcp 8443) g;
         g = add_ingress_rule merge ''rds_sg'' (security_group_peer ''ec2_sg'') (tcp 3306) g;
         g = add_ingress_rule merge ''rds_sg'' (security_group_peer ''ec2_sg'') (tcp 22) g;
         g = new_DatabaseCluster ''MyDatabase''
               \<lparr>engine = aurora_mysql VER_3_04_0,
                credentials = from_password ''testuser'' (SecretValue ''password1234!''),
                default_database_name = Some ''Population'',
                db_vpc = ''MyVPC'',
                db_security_groups = [''rds_sg''],
                db_vpc_subnets = PRIVATE_ISOLATED,
                db_instances = 1\<rparr> g;
         amzn_linux = latest_amazon_linux AMAZON_LINUX_2 STANDARD HVM GENERAL_PURPOSE
     in case open_read ''cdkapp/userdata.sh'' w of
          Inl e \<Rightarrow> Inl e
        | Inr (content, w) \<Rightarrow>
     (case index (availability_zones_of g ''MyVPC'') 0 of
          Inl e \<Rightarrow> Inl e
        | Inr az0 \<Rightarrow>
     (let g = from_role_name ''ec2_instance_role'' ''ec2_instance_role'' g;
          g = new_Instance ''MyInstance''
                \<lparr>instance_type = ''t2.small'',
                 machine_image = amzn_linux,
                 instance_vpc = ''MyVPC'',
                 instance_vpc_subnets = PRIVATE_WITH_EGRESS,
                 availability_zone = az0,
                 security_group = ''ec2_sg'',
                 user_data = custom content,
                 role = ''ec2_instance_role''\<rparr> g
      in case index (availability_zones_of g ''MyVPC'') 1 of
           Inl e \<Rightarrow> Inl e
         | Inr az1 \<Rightarrow>
     (let g = from_role_name ''ec2_instance_role2'' ''ec2_instance_role'' g;
          g = new_Instance ''MyInstance2''
                \<lparr>instance_type = ''t2.small'',
                 machine_image = amzn_linux,
                 instance_vpc = ''MyVPC'',
                 instance_vpc_subnets = PRIVATE_WITH_EGRESS,
                 availability_zone = az1,
                 security_group = ''ec2_sg'',
                 user_data = custom content,
                 role = ''ec2_instance_role2''\<rparr> g;
          g = new_ApplicationLoadBalancer ''MyLoadBalancer'' ''MyVPC'' True ''lb_sg'' g;
          g = add_listener merge ''MyLoadBalancer'' ''Listener'' 80 True g;
          g = add_targets merge ''Listener'' ''Targets'' 80 [] g;
          g = add_dependency ''MyInstance'' ''MyDatabase'' g;
          g = add_dependency ''Listener'' ''MyInstance'' g;
          g = add_dependency ''Listener'' ''MyInstance2'' g
      in Inr (g, w)))))))"

subsection \<open>Reading the resource graph\<close>

text \<open>An ordering edge \<open>a \<rightarrow> b\<close>: \<open>a\<close> has to be ready before \<open>b\<close> is provisioned,
  that is, \<open>b\<close> was declared to depend on \<open>a\<close>.\<close>

definition ordering_edges :: "Stack \<Rightarrow> (string \<times> string) set" where
  "ordering_edges g = set (map (\<lambda>(dependent, prerequisite). (prerequisite, dependent))
                              (dependencies g))"

text \<open>The target pool of a listener: the targets of its target groups.\<close>

definition target_pool :: "Stack \<Rightarrow> string \<Rightarrow> string list" where
  "target_pool g listener =
     concat (map (\<lambda>(cid, t). targets t)
                 (filter (\<lambda>(cid, t). tg_listener t = listener) (target_groups g)))"

text \<open>An endpoint of a connection: its IPv4 address and the security groups it is
  attached to. A connection is a protocol and a port.\<close>

record Endpoint =
  ep_address :: string
  ep_security_groups :: "string list"

fun peer_admits :: "Peer \<Rightarrow> Endpoint \<Rightarrow> bool" where
  "peer_admits any_ipv4 ep = True"
| "peer_admits (security_group_peer sg) ep = (sg \<in> set (ep_security_groups ep))"

fun port_admits :: "Port \<Rightarrow> Protocol \<times> nat \<Rightarrow> bool" where
  "port_admits (tcp p) (proto, q) = (proto = TCP \<and> q = p)"
| "port_admits all_traffic c = True"

definition rules_admit :: "(Peer \<times> Port) list \<Rightarrow> Endpoint \<Rightarrow> Protocol \<times> nat \<Rightarrow> bool" where
  "rules_admit rules ep c = list_ex (\<lambda>(p, k). peer_admits p ep \<and> port_admits k c) rules"

text \<open>Inbound: the group admits a connection from \<open>ep\<close> when one of its grants does.\<close>

definition ingress_allowed :: "SecurityGroup \<Rightarrow> Endpoint \<Rightarrow> Protocol \<times> nat \<Rightarrow> bool" where
  "ingress_allowed sg ep c = rules_admit (ingress_rules sg) ep c"

text \<open>Outbound: the declaration authors no outbound rule; a group declared with
  \<open>allow_all_outbound\<close> carries the rule "all traffic to any IPv4 address", another group
  none.\<close>

definition egress_rules :: "SecurityGroup \<Rightarrow> (Peer \<times> Port) list" where
  "egress_rules sg = (if allow_all_outbound sg then [(any_ipv4, all_traffic)] else [])"

definition egress_allowed :: "SecurityGroup \<Rightarrow> Endpoint \<Rightarrow> Protocol \<times> nat \<Rightarrow> bool" where
  "egress_allowed sg ep c = rules_admit (egress_rules sg) ep c"

text \<open>Every inbound grant of the graph, with the group that holds it.\<close>

definition inbound_grants :: "Stack \<Rightarrow> (string \<times> Peer \<times> Port) list" where
  "inbound_grants g =
     concat (map (\<lambda>(cid, sg). map (\<lambda>r. (cid, r)) (ingress_rules sg)) (security_groups g))"

text \<open>The security groups attached to the resources of the graph, as pairs
  \<open>(resource, group)\<close>.\<close>

definition attachments :: "Stack \<Rightarrow> (string \<times> string) list" where
  "attachments g =
     concat (map (\<lambda>(cid, c). map (\<lambda>sg. (cid, sg)) (db_security_groups c)) (database_clusters g))
     @ map (\<lambda>(cid, i). (cid, security_group i)) (instances g)
     @ map (\<lambda>(cid, b). (cid, lb_security_group b)) (load_balancers g)"

text \<open>
  The subnet class each resource is placed in. A load balancer declared without a subnet
  selection is placed by the SDK: in the public subnets when it is internet-facing, in the
  private subnets with egress otherwise.
\<close>

definition lb_subnet_type :: "ApplicationLoadBalancer \<Rightarrow> SubnetType" where
  "lb_subnet_type b =
     (case lb_vpc_subnets b of
        Some t \<Rightarrow> t
      | None \<Rightarrow> if internet_facing b then PUBLIC else PRIVATE_WITH_EGRESS)"

definition placements :: "Stack \<Rightarrow> (string \<times> SubnetType) list" where
  "placements g =
     map (\<lambda>(cid, c). (cid, db_vpc_subnets c)) (database_clusters g)
     @ map (\<lambda>(cid, i). (cid, instance_vpc_subnets i)) (instances g)
     @ map (\<lambda>(cid, b). (cid, lb_subnet_type b)) (load_balancers g)"

text \<open>The inbound grants of one group, in the order the graph lists them.\<close>

definition group_rules :: "Stack \<Rightarrow> string \<Rightarrow> (Peer \<times> Port) list" where
  "group_rules g sg =
     (case map_of (security_groups g) sg of None \<Rightarrow> [] | Some s \<Rightarrow> ingress_rules s)"

text \<open>Credentials whose password is written in the declaration, as opposed to generated
  by, or looked up in, a secret store.\<close>

fun literal_credentials :: "Credentials \<Rightarrow> bool" where
  "literal_credentials (from_password u (SecretValue p)) = True"
| "literal_credentials (from_password u (secrets_manager n)) = False"
| "literal_credentials (from_generated_secret u) = False"
| "literal_credentials (from_secret n) = False"


subsection \<open>Concrete inputs\<close>

text \<open>The ASCII decoding: every byte below 128 is the character it encodes, and no other
  byte decodes.\<close>

definition ascii :: "string \<Rightarrow> string option" where
  "ascii bs = (if list_all (\<lambda>c. \<not> digit7 c) bs then Some bs else None)"

text \<open>An app in a region with two zones, with no stack declared yet, and a file system
  that holds the boot payload.\<close>

definition example_scope :: Scope where
  "example_scope =
     \<lparr>scope_path = [], scope_availability_zones = [''us-east-1a'', ''us-east-1b'']\<rparr>"

definition example_world :: World where
  "example_world =
     \<lparr>files = [''cdkapp/userdata.sh'' \<mapsto> ''#!/bin/bash''], decode = ascii,
      opened = [], constructs = []\<rparr>"

lemmas example_defs =
  example_scope_def example_world_def ascii_def admits_def sanitize_id_def
  valid_stack_name_def letters_def digits_def

section \<open>The declared stack\<close>

text \<open>
  When the scope admits the stack, the boot payload file can be read and decodes, and the
  VPC has at least two zones, the evaluation returns, and the stack it declares is the
  following, whatever the SDK does with a repeated grant; only \<open>lb_sg\<close>'s list of grants
  depends on that.
\<close>

lemma CdkappStack_Inr:
  assumes a: "admits scope cid w"
      and f: "files w ''cdkapp/userdata.sh'' = Some content"
      and d: "decode w content = Some decoded"
      and z: "1 < length (scope_availability_zones scope)"
  shows "CdkappStack merge scope cid w =
     Inr (\<lparr>stack_path = scope_path scope @ [sanitize_id cid],
        stack_availability_zones = scope_availability_zones scope,
        vpcs =
          [(''MyVPC'',
            \<lparr>ip_addresses = ''10.10.0.0/16'', nat_gateways = 1,
               subnet_configuration =
                 [\<lparr>subnet_type = PUBLIC, subnet_name = ''Public'', cidr_mask = 24\<rparr>,
                  \<lparr>subnet_type = PRIVATE_WITH_EGRESS,
                     subnet_name = ''PrivateWithEgress'', cidr_mask = 24\<rparr>,
                  \<lparr>subnet_type = PRIVATE_ISOLATED, subnet_name = ''RDS'', cidr_mask = 24\<rparr>],
               availability_zones = scope_availability_zones scope\<rparr>)],
        security_groups =
          [(''lb_sg'',
            \<lparr>sg_vpc = ''MyVPC'', allow_all_outbound = True,
               ingress_rules =
                 (if merge then [(any_ipv4, tcp 80)]
                  else [(any_ipv4, tcp 80), (any_ipv4, tcp 80)])\<rparr>),
           (''rds_sg'',
            \<lparr>sg_vpc = ''MyVPC'', allow_all_outbound = True,
               ingress_rules =
                 [(security_group_peer ''ec2_sg'', tcp 3306),
                  (security_group_peer ''ec2_sg'', tcp 22)]\<rparr>),
           (''ec2_sg'',
            \<lparr>sg_vpc = ''MyVPC'', allow_all_outbound = True,
               ingress_rules = [(security_group_peer ''lb_sg'', tcp 8443)]\<rparr>)],
        database_clusters =
          [(''MyDatabase'',
            \<lparr>engine = aurora_mysql VER_3_04_0,
               credentials = from_password ''testuser'' (SecretValue ''password1234!''),
               default_database_name = Some ''Population'',
               db_vpc = ''MyVPC'', db_security_groups = [''rds_sg''],
               db_vpc_subnets = PRIVATE_ISOLATED, db_instances = 1\<rparr>)],
        roles =
          [(''ec2_instance_role'', \<lparr>role_name = ''ec2_instance_role'', imported = True\<rparr>),
           (''ec2_instance_role2'', \<lparr>role_name = ''ec2_instance_role'', imported = True\<rparr>)],
        instances =
          [(''MyInstance'',
            \<lparr>instance_type = ''t2.small'',
               machine_image =
                 \<lparr>generation = AMAZON_LINUX_2, edition = STANDARD,
                    virtualization = HVM, storage = GENERAL_PURPOSE\<rparr>,
               instance_vpc = ''MyVPC'',
               instance_vpc_subnets = PRIVATE_WITH_EGRESS,
               availability_zone = scope_availability_zones scope ! 0,
               security_group = ''ec2_sg'',
               user_data = custom (universal_newlines decoded),
               role = ''ec2_instance_role''\<rparr>),
           (''MyInstance2'',
            \<lparr>instance_type = ''t2.small'',
               machine_image =
                 \<lparr>generation = AMAZON_LINUX_2, edition = STANDARD,
                    virtualization = HVM, storage = GENERAL_PURPOSE\<rparr>,
               instance_vpc = ''MyVPC'',
               instance_vpc_subnets = PRIVATE_WITH_EGRESS,
               availability_zone = scope_availability_zones scope ! 1,
               security_group = ''ec2_sg'',
               user_data = custom (universal_newlines decoded),
               role = ''ec2_instance_role2''\<rparr>)],
        load_balancers =
          [(''MyLoadBalancer'',
            \<lparr>lb_vpc = ''MyVPC'', internet_facing = True,
               lb_security_group = ''lb_sg'', lb_vpc_subnets = None\<rparr>)],
        listeners =
          [(''Listener'',
            \<lparr>load_balancer = ''MyLoadBalancer'', listener_port = 80,
               listener_open = True\<rparr>)],
        target_groups =
          [(''Targets'', \<lparr>tg_listener = ''Listener'', tg_port = 80, targets = []\<rparr>)],
        dependencies =
          [(''MyInstance'', ''MyDatabase''), (''Listener'', ''MyInstance''),
           (''Listener'', ''MyInstance2'')]\<rparr>,
       w\<lparr>opened := opened w @ [''cdkapp/userdata.sh''],
         constructs := constructs w @ [scope_path scope @ [sanitize_id cid]]\<rparr>)"
  using a f d z
  unfolding CdkappStack_def Let_def
  by (cases merge)
     (auto simp add: open_read_def index_def availability_zones_of_def
      Stack_init_def new_Vpc_def new_SecurityGroup_def add_ingress_rule_def
      new_DatabaseCluster_def latest_amazon_linux_def from_role_name_def new_Instance_def
      new_ApplicationLoadBalancer_def add_listener_def add_targets_def add_dependency_def)

text \<open>The ways the evaluation fails, in the order the declaration meets them: the scope
  refuses the stack; the VPC has no zone; the file cannot be read; its bytes do not
  decode; the VPC has one zone only.\<close>

lemma CdkappStack_RuntimeError:
  assumes "\<not> admits scope cid w"
  shows "CdkappStack merge scope cid w = Inl (RuntimeError cid)"
  using assms unfolding CdkappStack_def
  by (simp add: Stack_init_def)

lemma CdkappStack_no_zone:
  assumes "admits scope cid w" and "scope_availability_zones scope = []"
  shows "CdkappStack merge scope cid w = Inl (RuntimeError ''MyVPC'')"
  using assms unfolding CdkappStack_def
  by (simp add: Stack_init_def new_Vpc_def)

lemma CdkappStack_OSError:
  assumes "admits scope cid w" and "scope_availability_zones scope \<noteq> []"
      and "files w ''cdkapp/userdata.sh'' = None"
  shows "CdkappStack merge scope cid w = Inl (OSError ''cdkapp/userdata.sh'')"
  using assms unfolding CdkappStack_def Let_def
  by (simp add: Stack_init_def new_Vpc_def open_read_def)






text \<open>Ids the example scope admits and refuses: a \<open>/\<close> is stored as \<open>--\<close>; an
  underscore, a leading digit and the empty id are refused.\<close>

lemma admits_examples:
  "admits example_scope ''CdkappStack'' example_world"
  "admits example_scope ''Cdk/app-2'' example_world"
  "\<not> admits example_scope ''my_stack'' example_world"
  "\<not> admits example_scope ''2stack'' example_world"
  "\<not> admits example_scope [] example_world"
  "\<not> admits example_scope ''CdkappStack'' (example_world\<lparr>constructs := [[''CdkappStack'']]\<rparr>)"
  by (simp_all add: example_defs)

text \<open>How a list of grants admits a connection.\<close>

lemma rules_admit_Cons:
  "rules_admit ((p, k) # rs) ep c =
     (peer_admits p ep \<and> port_admits k c \<or> rules_admit rs ep c)"
  by (simp add: rules_admit_def)

lemma rules_admit_Nil: "rules_admit [] ep c = False"
  by (simp add: rules_admit_def)

lemma port_admits_tcp: "port_admits (tcp p) c = (c = (TCP, p))"
  by (cases c) auto

section \<open>Ordering edges\<close>

text \<open>
  C1. The claim lists four ordering edges: database cluster \<open>\<rightarrow>\<close> compute node A,
  database cluster \<open>\<rightarrow>\<close> compute node B, node A \<open>\<rightarrow>\<close> listener and node B \<open>\<rightarrow>\<close>
  listener, and no edge in a reverse direction. The declaration authors three
  dependencies: \<open>MyInstance\<close> on \<open>MyDatabase\<close>, and \<open>Listener\<close> on \<open>MyInstance\<close> and on
  \<open>MyInstance2\<close>. The theorem states what the declared graph holds: exactly these three
  edges, none of them reversed, and no edge from the database cluster to the second
  compute node \<open>MyInstance2\<close>.
\<close>

theorem ordering_edges_declared:
  assumes "admits scope cid w"
      and "files w ''cdkapp/userdata.sh'' = Some content"
      and "decode w content = Some decoded"
      and "1 < length (scope_availability_zones scope)"
  shows "\<exists>g w'. CdkappStack merge scope cid w = Inr (g, w') \<and>
           ordering_edges g =
             {(''MyDatabase'', ''MyInstance''), (''MyInstance'', ''Listener''),
              (''MyInstance2'', ''Listener'')} \<and>
           (''MyDatabase'', ''MyInstance2'') \<notin> ordering_edges g \<and>
           (\<forall>(a, b) \<in> ordering_edges g. (b, a) \<notin> ordering_edges g)"
  by (simp add: CdkappStack_Inr [OF assms] ordering_edges_def)

theorem ordering_edges_declared_witness:
  "\<exists>g w'. CdkappStack True example_scope ''CdkappStack'' example_world = Inr (g, w') \<and>
           ordering_edges g =
             {(''MyDatabase'', ''MyInstance''), (''MyInstance'', ''Listener''),
              (''MyInstance2'', ''Listener'')} \<and>
           (''MyDatabase'', ''MyInstance2'') \<notin> ordering_edges g \<and>
           (\<forall>(a, b) \<in> ordering_edges g. (b, a) \<notin> ordering_edges g)"
  using ordering_edges_declared [where w = example_world and content = "''#!/bin/bash''"
      and scope = example_scope and merge = True and cid = "''CdkappStack''"]
  by (simp add: example_defs)

section \<open>The listener and its target pool\<close>

text \<open>
  C2. The claim: the load balancer has exactly one listening rule, on port 80, and the
  target pool of that rule is the set of both compute nodes. The declaration calls
  \<open>listener.add_targets("Targets", port=80)\<close> without a \<open>targets\<close> argument. The
  theorem states what the declared graph holds: one load balancer with one listener, on
  port 80; one target group of that listener, on port 80, with no target; so the
  listener's target pool is empty and contains neither \<open>MyInstance\<close> nor
  \<open>MyInstance2\<close>.
\<close>

theorem listener_and_target_pool_declared:
  assumes "admits scope cid w"
      and "files w ''cdkapp/userdata.sh'' = Some content"
      and "decode w content = Some decoded"
      and "1 < length (scope_availability_zones scope)"
  shows "\<exists>g w'. CdkappStack merge scope cid w = Inr (g, w') \<and>
           listeners g =
             [(''Listener'',
               \<lparr>load_balancer = ''MyLoadBalancer'', listener_port = 80,
                  listener_open = True\<rparr>)] \<and>
           map fst (load_balancers g) = [''MyLoadBalancer''] \<and>
           map fst (instances g) = [''MyInstance'', ''MyInstance2''] \<and>
           target_groups g =
             [(''Targets'', \<lparr>tg_listener = ''Listener'', tg_port = 80, targets = []\<rparr>)] \<and>
           target_pool g ''Listener'' = [] \<and>
           ''MyInstance'' \<notin> set (target_pool g ''Listener'') \<and>
           ''MyInstance2'' \<notin> set (target_pool g ''Listener'')"
  by (simp add: CdkappStack_Inr [OF assms] target_pool_def)

theorem listener_and_target_pool_declared_witness:
  "\<exists>g w'. CdkappStack True example_scope ''CdkappStack'' example_world = Inr (g, w') \<and>
           listeners g =
             [(''Listener'',
               \<lparr>load_balancer = ''MyLoadBalancer'', listener_port = 80,
                  listener_open = True\<rparr>)] \<and>
           map fst (load_balancers g) = [''MyLoadBalancer''] \<and>
           map fst (instances g) = [''MyInstance'', ''MyInstance2''] \<and>
           target_groups g =
             [(''Targets'', \<lparr>tg_listener = ''Listener'', tg_port = 80, targets = []\<rparr>)] \<and>
           target_pool g ''Listener'' = [] \<and>
           ''MyInstance'' \<notin> set (target_pool g ''Listener'') \<and>
           ''MyInstance2'' \<notin> set (target_pool g ''Listener'')"
  using listener_and_target_pool_declared [where w = example_world
      and content = "''#!/bin/bash''" and decoded = "''#!/bin/bash''"
      and scope = example_scope and merge = True
      and cid = "''CdkappStack''"]
  by (simp add: example_defs)

section \<open>Security groups\<close>

text \<open>
  C3. The three security groups of the produced graph form the allow-chain: the inbound
  set of \<open>lb_sg\<close> is exactly any IPv4 address on TCP port 80; the inbound set of
  \<open>ec2_sg\<close> is exactly \<open>lb_sg\<close> on TCP port 8443; the inbound set of \<open>rds_sg\<close> is
  exactly \<open>ec2_sg\<close> on TCP ports 3306 and 22. The graph has no other group and no other
  inbound grant, and \<open>rds_sg\<close> admits a connection exactly when it comes from an endpoint
  in \<open>ec2_sg\<close> and goes to TCP port 3306 or 22. This holds whether or not the SDK merges
  equal grants.
\<close>

theorem security_groups_allow_chain:
  assumes "admits scope cid w"
      and "files w ''cdkapp/userdata.sh'' = Some content"
      and "decode w content = Some decoded"
      and "1 < length (scope_availability_zones scope)"
  shows "\<exists>g w' lb ec2 rds. CdkappStack merge scope cid w = Inr (g, w') \<and>
           map fst (security_groups g) = [''lb_sg'', ''rds_sg'', ''ec2_sg''] \<and>
           map_of (security_groups g) ''lb_sg'' = Some lb \<and>
           map_of (security_groups g) ''ec2_sg'' = Some ec2 \<and>
           map_of (security_groups g) ''rds_sg'' = Some rds \<and>
           set (ingress_rules lb) = {(any_ipv4, tcp 80)} \<and>
           set (ingress_rules ec2) = {(security_group_peer ''lb_sg'', tcp 8443)} \<and>
           set (ingress_rules rds) =
             {(security_group_peer ''ec2_sg'', tcp 3306),
              (security_group_peer ''ec2_sg'', tcp 22)} \<and>
           set (inbound_grants g) =
             {(''lb_sg'', any_ipv4, tcp 80),
              (''ec2_sg'', security_group_peer ''lb_sg'', tcp 8443),
              (''rds_sg'', security_group_peer ''ec2_sg'', tcp 3306),
              (''rds_sg'', security_group_peer ''ec2_sg'', tcp 22)} \<and>
           (\<forall>ep c. ingress_allowed rds ep c \<longleftrightarrow>
              ''ec2_sg'' \<in> set (ep_security_groups ep) \<and> (c = (TCP, 3306) \<or> c = (TCP, 22)))"
  by (cases merge)
     (auto simp add: CdkappStack_Inr [OF assms] inbound_grants_def ingress_allowed_def
        rules_admit_Cons rules_admit_Nil port_admits_tcp)

theorem security_groups_allow_chain_witness:
  "\<exists>g w' lb ec2 rds.
     CdkappStack True example_scope ''CdkappStack'' example_world = Inr (g, w') \<and>
           map fst (security_groups g) = [''lb_sg'', ''rds_sg'', ''ec2_sg''] \<and>
           map_of (security_groups g) ''lb_sg'' = Some lb \<and>
           map_of (security_groups g) ''ec2_sg'' = Some ec2 \<and>
           map_of (security_groups g) ''rds_sg'' = Some rds \<and>
           set (ingress_rules lb) = {(any_ipv4, tcp 80)} \<and>
           set (ingress_rules ec2) = {(security_group_peer ''lb_sg'', tcp 8443)} \<and>
           set (ingress_rules rds) =
             {(security_group_peer ''ec2_sg'', tcp 3306),
              (security_group_peer ''ec2_sg'', tcp 22)} \<and>
           set (inbound_grants g) =
             {(''lb_sg'', any_ipv4, tcp 80),
              (''ec2_sg'', security_group_peer ''lb_sg'', tcp 8443),
              (''rds_sg'', security_group_peer ''ec2_sg'', tcp 3306),
              (''rds_sg'', security_group_peer ''ec2_sg'', tcp 22)} \<and>
           (\<forall>ep c. ingress_allowed rds ep c \<longleftrightarrow>
              ''ec2_sg'' \<in> set (ep_security_groups ep) \<and> (c = (TCP, 3306) \<or> c = (TCP, 22)))"
  using security_groups_allow_chain [where w = example_world
      and content = "''#!/bin/bash''" and decoded = "''#!/bin/bash''"
      and scope = example_scope and merge = True
      and cid = "''CdkappStack''"]
  by (simp add: example_defs)

section \<open>The compute nodes\<close>

text \<open>
  C4, as stated, says that the two compute nodes are in distinct zones. The declaration
  takes the VPC's zones at index 0 and at index 1 and compares nothing: evaluated in a
  scope whose list of zones starts with the same zone twice, it puts both nodes in that
  one zone.
\<close>

theorem compute_nodes_same_zone_counterexample:
  "\<exists>g w' a b.
     CdkappStack True
       (example_scope\<lparr>scope_availability_zones := [''us-east-1a'', ''us-east-1a'']\<rparr>)
       ''CdkappStack'' example_world = Inr (g, w') \<and>
     map_of (instances g) ''MyInstance'' = Some a \<and>
     map_of (instances g) ''MyInstance2'' = Some b \<and>
     availability_zone a = ''us-east-1a'' \<and>
     availability_zone b = ''us-east-1a'' \<and>
     availability_zone a = availability_zone b"
  using CdkappStack_Inr [where w = example_world
      and content = "''#!/bin/bash''" and decoded = "''#!/bin/bash''"
      and scope = "example_scope\<lparr>scope_availability_zones := [''us-east-1a'', ''us-east-1a'']\<rparr>"
      and merge = True and cid = "''CdkappStack''"]
  by (simp add: example_defs)

text \<open>
  C4, amended. The two compute nodes are placed in the VPC's zone at index 0 and at index
  1, and the VPC's zones are those of the scope; the two zones are equal exactly when
  these two entries are, so they differ whenever the list of zones names no zone twice.
  Both nodes have the size class \<open>t2.small\<close> and the same machine image: Amazon Linux 2,
  standard edition, HVM, general purpose storage.
\<close>

theorem compute_nodes_zones_image_size:
  assumes "admits scope cid w"
      and "files w ''cdkapp/userdata.sh'' = Some content"
      and "decode w content = Some decoded"
      and "1 < length (scope_availability_zones scope)"
  shows "\<exists>g w' a b. CdkappStack merge scope cid w = Inr (g, w') \<and>
           map fst (instances g) = [''MyInstance'', ''MyInstance2''] \<and>
           map_of (instances g) ''MyInstance'' = Some a \<and>
           map_of (instances g) ''MyInstance2'' = Some b \<and>
           availability_zones_of g ''MyVPC'' = scope_availability_zones scope \<and>
           availability_zone a = availability_zones_of g ''MyVPC'' ! 0 \<and>
           availability_zone b = availability_zones_of g ''MyVPC'' ! 1 \<and>
           (availability_zone a = availability_zone b \<longleftrightarrow>
              scope_availability_zones scope ! 0 = scope_availability_zones scope ! 1) \<and>
           (distinct (scope_availability_zones scope) \<longrightarrow>
              availability_zone a \<noteq> availability_zone b) \<and>
           machine_image a =
             \<lparr>generation = AMAZON_LINUX_2, edition = STANDARD, virtualization = HVM,
              storage = GENERAL_PURPOSE\<rparr> \<and>
           machine_image b =
             \<lparr>generation = AMAZON_LINUX_2, edition = STANDARD, virtualization = HVM,
              storage = GENERAL_PURPOSE\<rparr> \<and>
           instance_type a = ''t2.small'' \<and> instance_type b = ''t2.small''"
proof -
  from assms(4) have first: "0 < length (scope_availability_zones scope)"
    by auto
  have "distinct (scope_availability_zones scope) \<longrightarrow>
        scope_availability_zones scope ! 0 \<noteq> scope_availability_zones scope ! 1"
    using nth_eq_iff_index_eq [OF _ first assms(4)] by simp
  then show ?thesis
    by (simp add: CdkappStack_Inr [OF assms] availability_zones_of_def)
qed

theorem compute_nodes_zones_image_size_witness:
  "\<exists>g w' a b. CdkappStack True example_scope ''CdkappStack'' example_world = Inr (g, w') \<and>
           map fst (instances g) = [''MyInstance'', ''MyInstance2''] \<and>
           map_of (instances g) ''MyInstance'' = Some a \<and>
           map_of (instances g) ''MyInstance2'' = Some b \<and>
           availability_zones_of g ''MyVPC'' = [''us-east-1a'', ''us-east-1b''] \<and>
           availability_zone a = ''us-east-1a'' \<and>
           availability_zone b = ''us-east-1b'' \<and>
           availability_zone a \<noteq> availability_zone b \<and>
           machine_image a =
             \<lparr>generation = AMAZON_LINUX_2, edition = STANDARD, virtualization = HVM,
              storage = GENERAL_PURPOSE\<rparr> \<and>
           machine_image b =
             \<lparr>generation = AMAZON_LINUX_2, edition = STANDARD, virtualization = HVM,
              storage = GENERAL_PURPOSE\<rparr> \<and>
           instance_type a = ''t2.small'' \<and> instance_type b = ''t2.small''"
  using compute_nodes_zones_image_size [where w = example_world
      and content = "''#!/bin/bash''" and decoded = "''#!/bin/bash''"
      and scope = example_scope and merge = True
      and cid = "''CdkappStack''"]
  by (auto simp add: example_defs)

section \<open>The boot payload\<close>




section \<open>Failure and re-evaluation\<close>

text \<open>
  C6. When the boot payload file is missing or unreadable, the evaluation fails and
  returns no resource graph. The error is the one \<open>open\<close> raises, unless the SDK has
  refused the stack or its VPC before the file is opened.
\<close>

theorem missing_boot_payload_fails:
  assumes "files w ''cdkapp/userdata.sh'' = None"
  shows "(\<exists>e. CdkappStack merge scope cid w = Inl e) \<and>
         (\<forall>g w'. CdkappStack merge scope cid w \<noteq> Inr (g, w')) \<and>
         (admits scope cid w \<and> scope_availability_zones scope \<noteq> [] \<longrightarrow>
            CdkappStack merge scope cid w = Inl (OSError ''cdkapp/userdata.sh''))"
proof (cases "admits scope cid w")
  case False
  then show ?thesis by (simp add: CdkappStack_RuntimeError)
next
  case a: True
  show ?thesis
  proof (cases "scope_availability_zones scope = []")
    case True
    with a show ?thesis by (simp add: CdkappStack_no_zone)
  next
    case False
    with a assms show ?thesis by (simp add: CdkappStack_OSError)
  qed
qed

theorem missing_boot_payload_fails_witness:
  "(\<exists>e. CdkappStack True example_scope ''CdkappStack''
           (example_world\<lparr>files := Map.empty\<rparr>) = Inl e) \<and>
   (\<forall>g w'. CdkappStack True example_scope ''CdkappStack''
           (example_world\<lparr>files := Map.empty\<rparr>) \<noteq> Inr (g, w')) \<and>
   CdkappStack True example_scope ''CdkappStack'' (example_world\<lparr>files := Map.empty\<rparr>)
     = Inl (OSError ''cdkapp/userdata.sh'')"
  using missing_boot_payload_fails [where w = "example_world\<lparr>files := Map.empty\<rparr>"
      and scope = example_scope and merge = True and cid = "''CdkappStack''"]
  by (simp add: example_defs)




section \<open>The database cluster\<close>

text \<open>
  C8. The graph has one database cluster, \<open>MyDatabase\<close>. Of the resources that are placed
  in a subnet class (the cluster, the two compute nodes, the load balancer) it is the only
  one in the isolated class. It is bound to the database security group \<open>rds_sg\<close>, names
  one logical database, \<open>Population\<close>, and carries one credential pair, user
  \<open>testuser\<close> with password \<open>password1234!\<close>, both written in the declaration and not
  taken from a secret store.
\<close>

theorem database_cluster_declared:
  assumes "admits scope cid w"
      and "files w ''cdkapp/userdata.sh'' = Some content"
      and "decode w content = Some decoded"
      and "1 < length (scope_availability_zones scope)"
  shows "\<exists>g w' db. CdkappStack merge scope cid w = Inr (g, w') \<and>
           database_clusters g = [(''MyDatabase'', db)] \<and>
           filter (\<lambda>(r, t). t = PRIVATE_ISOLATED) (placements g) =
             [(''MyDatabase'', PRIVATE_ISOLATED)] \<and>
           map fst (placements g) =
             [''MyDatabase'', ''MyInstance'', ''MyInstance2'', ''MyLoadBalancer''] \<and>
           db_vpc_subnets db = PRIVATE_ISOLATED \<and>
           db_security_groups db = [''rds_sg''] \<and>
           default_database_name db = Some ''Population'' \<and>
           credentials db = from_password ''testuser'' (SecretValue ''password1234!'') \<and>
           literal_credentials (credentials db)"
  by (simp add: CdkappStack_Inr [OF assms] placements_def lb_subnet_type_def)

theorem database_cluster_declared_witness:
  "\<exists>g w' db. CdkappStack True example_scope ''CdkappStack'' example_world = Inr (g, w') \<and>
           database_clusters g = [(''MyDatabase'', db)] \<and>
           filter (\<lambda>(r, t). t = PRIVATE_ISOLATED) (placements g) =
             [(''MyDatabase'', PRIVATE_ISOLATED)] \<and>
           map fst (placements g) =
             [''MyDatabase'', ''MyInstance'', ''MyInstance2'', ''MyLoadBalancer''] \<and>
           db_vpc_subnets db = PRIVATE_ISOLATED \<and>
           db_security_groups db = [''rds_sg''] \<and>
           default_database_name db = Some ''Population'' \<and>
           credentials db = from_password ''testuser'' (SecretValue ''password1234!'') \<and>
           literal_credentials (credentials db)"
  using database_cluster_declared [where w = example_world
      and content = "''#!/bin/bash''" and decoded = "''#!/bin/bash''"
      and scope = example_scope and merge = True
      and cid = "''CdkappStack''"]
  by (simp add: example_defs)

section \<open>Outbound traffic\<close>

text \<open>
  C9. All three security groups are declared with \<open>allow_all_outbound\<close>. Every resource
  the graph attaches a group to, the database cluster included, is attached to one of
  them, and so may open a connection to any IPv4 destination, with any protocol, on any
  port.
\<close>

theorem all_groups_allow_all_outbound:
  assumes "admits scope cid w"
      and "files w ''cdkapp/userdata.sh'' = Some content"
      and "decode w content = Some decoded"
      and "1 < length (scope_availability_zones scope)"
  shows "\<exists>g w'. CdkappStack merge scope cid w = Inr (g, w') \<and>
           map fst (security_groups g) = [''lb_sg'', ''rds_sg'', ''ec2_sg''] \<and>
           (\<forall>(cid, sg) \<in> set (security_groups g).
              allow_all_outbound sg \<and> (\<forall>ep c. egress_allowed sg ep c)) \<and>
           attachments g =
             [(''MyDatabase'', ''rds_sg''), (''MyInstance'', ''ec2_sg''),
              (''MyInstance2'', ''ec2_sg''), (''MyLoadBalancer'', ''lb_sg'')] \<and>
           (\<forall>(r, s) \<in> set (attachments g).
              \<exists>sg. map_of (security_groups g) s = Some sg \<and>
                   (\<forall>ep c. egress_allowed sg ep c))"
  by (cases merge)
     (simp_all add: CdkappStack_Inr [OF assms] attachments_def egress_allowed_def
        egress_rules_def rules_admit_Cons)

theorem all_groups_allow_all_outbound_witness:
  "\<exists>g w'. CdkappStack True example_scope ''CdkappStack'' example_world = Inr (g, w') \<and>
           map fst (security_groups g) = [''lb_sg'', ''rds_sg'', ''ec2_sg''] \<and>
           (\<forall>(cid, sg) \<in> set (security_groups g).
              allow_all_outbound sg \<and> (\<forall>ep c. egress_allowed sg ep c)) \<and>
           attachments g =
             [(''MyDatabase'', ''rds_sg''), (''MyInstance'', ''ec2_sg''),
              (''MyInstance2'', ''ec2_sg''), (''MyLoadBalancer'', ''lb_sg'')] \<and>
           (\<forall>(r, s) \<in> set (attachments g).
              \<exists>sg. map_of (security_groups g) s = Some sg \<and>
                   (\<forall>ep c. egress_allowed sg ep c))"
  using all_groups_allow_all_outbound [where w = example_world
      and content = "''#!/bin/bash''" and decoded = "''#!/bin/bash''"
      and scope = example_scope and merge = True
      and cid = "''CdkappStack''"]
  by (simp add: example_defs)

section \<open>The open listener\<close>

text \<open>
  C10, as stated, says that \<open>open=True\<close> leaves \<open>lb_sg\<close> with two grants. That depends
  on the SDK: when it merges equal grants, \<open>lb_sg\<close> has one grant after the evaluation
  of the declaration in the example inputs, not two.
\<close>

theorem lb_sg_two_grants_counterexample:
  "\<exists>g w'. CdkappStack True example_scope ''CdkappStack'' example_world = Inr (g, w') \<and>
     group_rules g ''lb_sg'' = [(any_ipv4, tcp 80)] \<and>
     length (group_rules g ''lb_sg'') \<noteq> 2"
  using CdkappStack_Inr [where w = example_world
      and content = "''#!/bin/bash''" and decoded = "''#!/bin/bash''"
      and scope = example_scope and merge = True
      and cid = "''CdkappStack''"]
  by (simp add: example_defs group_rules_def)

text \<open>
  C10, amended. The listener is declared with \<open>open=True\<close>, which makes the SDK grant any
  IPv4 address access to TCP port 80 on \<open>lb_sg\<close>: the grant the declaration has already
  authored. The group lists that grant once when the SDK merges equal grants and twice
  when it does not. Either way every inbound grant of \<open>lb_sg\<close> is any IPv4 address on
  TCP port 80, and the group admits a connection exactly when it goes to TCP port 80.
\<close>

theorem listener_open_grant:
  assumes "admits scope cid w"
      and "files w ''cdkapp/userdata.sh'' = Some content"
      and "decode w content = Some decoded"
      and "1 < length (scope_availability_zones scope)"
  shows "\<exists>g w' lb. CdkappStack merge scope cid w = Inr (g, w') \<and>
           map_of (listeners g) ''Listener'' =
             Some \<lparr>load_balancer = ''MyLoadBalancer'', listener_port = 80,
                     listener_open = True\<rparr> \<and>
           map_of (security_groups g) ''lb_sg'' = Some lb \<and>
           group_rules g ''lb_sg'' = ingress_rules lb \<and>
           ingress_rules lb =
             (if merge then [(any_ipv4, tcp 80)]
              else [(any_ipv4, tcp 80), (any_ipv4, tcp 80)]) \<and>
           set (ingress_rules lb) = {(any_ipv4, tcp 80)} \<and>
           (\<forall>ep c. ingress_allowed lb ep c \<longleftrightarrow> c = (TCP, 80))"
  by (cases merge)
     (auto simp add: CdkappStack_Inr [OF assms] group_rules_def ingress_allowed_def
        rules_admit_Cons rules_admit_Nil port_admits_tcp)

theorem listener_open_grant_witness:
  "\<exists>g w' lb. CdkappStack False example_scope ''CdkappStack'' example_world = Inr (g, w') \<and>
           map_of (listeners g) ''Listener'' =
             Some \<lparr>load_balancer = ''MyLoadBalancer'', listener_port = 80,
                     listener_open = True\<rparr> \<and>
           map_of (security_groups g) ''lb_sg'' = Some lb \<and>
           group_rules g ''lb_sg'' = ingress_rules lb \<and>
           ingress_rules lb = [(any_ipv4, tcp 80), (any_ipv4, tcp 80)] \<and>
           set (ingress_rules lb) = {(any_ipv4, tcp 80)} \<and>
           (\<forall>ep c. ingress_allowed lb ep c \<longleftrightarrow> c = (TCP, 80))"
  using listener_open_grant [where w = example_world
      and content = "''#!/bin/bash''" and decoded = "''#!/bin/bash''"
      and scope = example_scope and merge = False
      and cid = "''CdkappStack''"]
  by (simp add: example_defs)

end
